theory Spec2Isabelle
  imports Complex_Main "HOL-Library.AList" "HOL-Library.Sublist" "HOL-Library.Product_Lexorder"
begin

section \<open>Values\<close>

text \<open>
  The values that \<^verbatim>\<open>json.loads\<close> produces and \<^verbatim>\<open>jsonify\<close> serialises: \<^verbatim>\<open>None\<close>,
  booleans, integers, floats, strings, lists and dicts. A float is given by the rational
  it denotes; \<^verbatim>\<open>json.loads\<close> also accepts the literals NaN, Infinity and -Infinity.
  A dict is an association list in insertion order.
\<close>

datatype nonfinite = NaN | PosInfinity | NegInfinity

datatype json =
    JNull
  | JBool bool
  | JInt int
  | JFloat rat
  | JNonFinite nonfinite
  | JStr string
  | JArr "json list"
  | JObj "(string \<times> json) list"

text \<open>Python truth value testing, as \<^verbatim>\<open>not x\<close> applies it.\<close>

fun truthy :: "json \<Rightarrow> bool" where
  "truthy JNull = False"
| "truthy (JBool b) = b"
| "truthy (JInt i) = (i \<noteq> 0)"
| "truthy (JFloat q) = (q \<noteq> 0)"
| "truthy (JNonFinite n) = True"
| "truthy (JStr s) = (s \<noteq> [])"
| "truthy (JArr xs) = (xs \<noteq> [])"
| "truthy (JObj kvs) = (kvs \<noteq> [])"

text \<open>
  \<^verbatim>\<open>dict(pairs)\<close>: a key keeps the position of its first occurrence and the value of its
  last one.
\<close>

definition py_dict :: "(string \<times> 'a) list \<Rightarrow> (string \<times> 'a) list" where
  "py_dict kvs = foldl (\<lambda>d (k, v). AList.update k v d) [] kvs"

text \<open>Member lookup in a JSON object, used to read fields of a response.\<close>

fun field :: "string \<Rightarrow> json \<Rightarrow> json option" where
  "field k (JObj kvs) = map_of kvs k"
| "field k _ = None"

section \<open>Time stamps\<close>

text \<open>
  A naive \<^verbatim>\<open>datetime\<close>, as \<^verbatim>\<open>datetime.utcnow()\<close> returns it. The class keeps its fields
  in range (\<open>valid_datetime\<close>).
\<close>

record datetime =
  dt_year :: nat
  dt_month :: nat
  dt_day :: nat
  dt_hour :: nat
  dt_minute :: nat
  dt_second :: nat
  dt_microsecond :: nat

definition is_leap :: "nat \<Rightarrow> bool" where
  "is_leap y = (y mod 4 = 0 \<and> (y mod 100 \<noteq> 0 \<or> y mod 400 = 0))"

definition days_in_month :: "nat \<Rightarrow> nat \<Rightarrow> nat" where
  "days_in_month y m =
     (if m = 2 then (if is_leap y then 29 else 28)
      else if m = 4 \<or> m = 6 \<or> m = 9 \<or> m = 11 then 30 else 31)"

definition valid_datetime :: "datetime \<Rightarrow> bool" where
  "valid_datetime d =
     (1 \<le> dt_year d \<and> dt_year d \<le> 9999 \<and> 1 \<le> dt_month d \<and> dt_month d \<le> 12 \<and>
      1 \<le> dt_day d \<and> dt_day d \<le> days_in_month (dt_year d) (dt_month d) \<and>
      dt_hour d < 24 \<and> dt_minute d < 60 \<and> dt_second d < 60 \<and> dt_microsecond d < 1000000)"

definition digit_char :: "nat \<Rightarrow> char" where
  "digit_char n = char_of (48 + n)"

text \<open>\<^verbatim>\<open>"%0wd" % n\<close> for a number of at most \<open>w\<close> digits.\<close>

fun zpad :: "nat \<Rightarrow> nat \<Rightarrow> string" where
  "zpad 0 n = []"
| "zpad (Suc w) n = zpad w (n div 10) @ [digit_char (n mod 10)]"

text \<open>
  \<^verbatim>\<open>datetime.isoformat()\<close>: \<^verbatim>\<open>YYYY-MM-DDTHH:MM:SS\<close>, followed by \<^verbatim>\<open>.ffffff\<close> when the
  microsecond is not zero. A naive datetime carries no zone designator.
\<close>

definition isoformat :: "datetime \<Rightarrow> string" where
  "isoformat d =
     zpad 4 (dt_year d) @ ''-'' @ zpad 2 (dt_month d) @ ''-'' @ zpad 2 (dt_day d) @ ''T'' @
     zpad 2 (dt_hour d) @ '':'' @ zpad 2 (dt_minute d) @ '':'' @ zpad 2 (dt_second d) @
     (if dt_microsecond d = 0 then [] else ''.'' @ zpad 6 (dt_microsecond d))"

text \<open>
  A reader of the ISO-8601 extended format without zone designator (calendar date, \<^verbatim>\<open>T\<close>,
  time of day, optional six-digit decimal fraction of the second). It is the
  specification side of "parseable as ISO-8601".
\<close>

definition digit_val :: "char \<Rightarrow> nat option" where
  "digit_val c =
     (let n = (of_char c :: nat) in if 48 \<le> n \<and> n \<le> 57 then Some (n - 48) else None)"

fun parse_nat_acc :: "nat \<Rightarrow> string \<Rightarrow> nat option" where
  "parse_nat_acc acc [] = Some acc"
| "parse_nat_acc acc (c # cs) =
     (case digit_val c of None \<Rightarrow> None | Some v \<Rightarrow> parse_nat_acc (10 * acc + v) cs)"

definition parse_nat :: "string \<Rightarrow> nat option" where
  "parse_nat s = (if s = [] then None else parse_nat_acc 0 s)"

definition slice :: "nat \<Rightarrow> nat \<Rightarrow> string \<Rightarrow> string" where
  "slice i j s = take (j - i) (drop i s)"

definition parse_iso8601 :: "string \<Rightarrow> datetime option" where
  "parse_iso8601 s =
     (if (length s = 19 \<or> (length s = 26 \<and> s ! 19 = CHR ''.'')) \<and>
         s ! 4 = CHR ''-'' \<and> s ! 7 = CHR ''-'' \<and> s ! 10 = CHR ''T'' \<and>
         s ! 13 = CHR '':'' \<and> s ! 16 = CHR '':''
      then
        (case (parse_nat (slice 0 4 s), parse_nat (slice 5 7 s), parse_nat (slice 8 10 s),
               parse_nat (slice 11 13 s), parse_nat (slice 14 16 s), parse_nat (slice 17 19 s),
               (if length s = 19 then Some 0 else parse_nat (slice 20 26 s))) of
           (Some y, Some mo, Some d, Some h, Some mi, Some sec, Some us) \<Rightarrow>
             (let t = \<lparr>dt_year = y, dt_month = mo, dt_day = d, dt_hour = h, dt_minute = mi,
                       dt_second = sec, dt_microsecond = us\<rparr>
              in if valid_datetime t then Some t else None)
         | _ \<Rightarrow> None)
      else None)"

text \<open>Chronological order of datetimes: lexicographic on the fields.\<close>

definition dt_key :: "datetime \<Rightarrow> nat \<times> nat \<times> nat \<times> nat \<times> nat \<times> nat \<times> nat" where
  "dt_key d = (dt_year d, dt_month d, dt_day d, dt_hour d, dt_minute d, dt_second d,
               dt_microsecond d)"

definition dt_le :: "datetime \<Rightarrow> datetime \<Rightarrow> bool" where
  "dt_le a b = (dt_key a \<le> dt_key b)"

section \<open>The logger (\<^verbatim>\<open>logger.py\<close>)\<close>




datatype level = DEBUG | INFO | WARNING | ERROR | CRITICAL




















section \<open>Requests and responses\<close>

text \<open>
  The exceptions that occur: those of Werkzeug that carry an HTTP status
  (\<open>http_code\<close>), and \<^verbatim>\<open>AttributeError\<close>. \<open>InternalServerError e\<close> is the exception
  Flask wraps around an unhandled \<open>e\<close> before it looks for a handler of status 500.
\<close>

datatype exn =
    BadRequest
  | UnsupportedMediaType
  | NotFound
  | MethodNotAllowed
  | AttributeError
  | InternalServerError exn

fun http_code :: "exn \<Rightarrow> nat option" where
  "http_code BadRequest = Some 400"
| "http_code UnsupportedMediaType = Some 415"
| "http_code NotFound = Some 404"
| "http_code MethodNotAllowed = Some 405"
| "http_code AttributeError = None"
| "http_code (InternalServerError e) = Some 500"

text \<open>
  What a handler reads of the request. \<open>req_mimetype\<close> is the media type of the
  Content-Type header, in lower case and without parameters; \<open>req_json\<close> is the result of
  \<^verbatim>\<open>json.loads\<close> on the body, \<open>None\<close> when it raises; \<open>req_args\<close> are the query
  parameters in the order of the query string. The parser is not the JSON grammar: it
  accepts the literals NaN, Infinity and -Infinity, and it raises on some well-formed
  texts, such as an integer of more digits than the interpreter converts.
\<close>

record request =
  req_method :: string
  req_path :: string
  req_url :: string
  req_headers :: "(string \<times> string) list"
  req_remote_addr :: "string option"
  req_args :: "(string \<times> string) list"
  req_mimetype :: string
  req_json :: "json option"

text \<open>
  A response body is a JSON document (\<^verbatim>\<open>jsonify\<close>), the HTML page Werkzeug renders for
  an HTTP exception that no handler takes, the HTML traceback page of Werkzeug's
  debugger, a file of the static folder, or empty.
\<close>

datatype body =
    JsonBody json
  | HtmlErrorPage exn
  | DebuggerPage exn
  | StaticFile string
  | NoBody

record response =
  resp_status :: nat
  resp_body :: body

text \<open>
  What the application takes from its surroundings: the reading of the wall clock
  (\<^verbatim>\<open>datetime.utcnow()\<close>), Python's \<^verbatim>\<open>repr\<close> of a dict and \<^verbatim>\<open>str\<close> of an exception,
  which only shape log messages, and the names of the files in the static folder.
\<close>

record env =
  now :: datetime
  py_repr :: "json \<Rightarrow> string"
  py_str :: "exn \<Rightarrow> string"
  static_files :: "string list"

text \<open>A call of \<^verbatim>\<open>logger.info\<close>, \<^verbatim>\<open>logger.warning\<close> or \<^verbatim>\<open>logger.error\<close>.\<close>

type_synonym log_call = "level \<times> string"

definition jsonify :: "json \<Rightarrow> response" where
  "jsonify j = \<lparr>resp_status = 200, resp_body = JsonBody j\<rparr>"

definition with_status :: "response \<Rightarrow> nat \<Rightarrow> response" where
  "with_status r c = r\<lparr>resp_status := c\<rparr>"

text \<open>
  \<^verbatim>\<open>Request.is_json\<close> and \<^verbatim>\<open>Request.get_json()\<close> with its default arguments, as of
  Werkzeug 2.1: it raises when the media type is not JSON and when the body does not
  parse, and returns the parsed value otherwise.
\<close>

definition is_json :: "request \<Rightarrow> bool" where
  "is_json r =
     (req_mimetype r = ''application/json'' \<or>
      (prefix ''application/'' (req_mimetype r) \<and> suffix ''+json'' (req_mimetype r)))"

definition get_json :: "request \<Rightarrow> exn + json" where
  "get_json r =
     (if \<not> is_json r then Inl UnsupportedMediaType
      else case req_json r of None \<Rightarrow> Inl BadRequest | Some v \<Rightarrow> Inr v)"

text \<open>\<^verbatim>\<open>data.get(key)\<close>: a dict answers, with \<^verbatim>\<open>None\<close> for a missing key; no other JSON
  value has the attribute.\<close>

fun py_get :: "json \<Rightarrow> string \<Rightarrow> exn + json" where
  "py_get (JObj kvs) k = Inr (case map_of kvs k of None \<Rightarrow> JNull | Some v \<Rightarrow> v)"
| "py_get _ k = Inl AttributeError"

text \<open>\<^verbatim>\<open>request.args.get(key)\<close>: the first value of the key, \<^verbatim>\<open>None\<close> when it is absent.\<close>

definition args_get :: "request \<Rightarrow> string \<Rightarrow> string option" where
  "args_get r k = map_of (req_args r) k"

section \<open>The handlers (\<^verbatim>\<open>app.py\<close>)\<close>

text \<open>
  A handler returns the calls it made to the logger and either the exception it raised
  or its response.
\<close>

definition api_docs :: json where
  "api_docs = JObj
     [(''name'', JStr ''Cryptix API Service''),
      (''version'', JStr ''1.0.0''),
      (''description'',
         JStr ''API service for logging and monitoring Cryptix platform activities''),
      (''endpoints'', JObj
         [(''/'', JObj
             [(''methods'', JArr [JStr ''GET'']),
              (''description'', JStr ''This documentation'')]),
          (''/health'', JObj
             [(''methods'', JArr [JStr ''GET'']),
              (''description'', JStr ''Health check endpoint''),
              (''response'', JObj
                 [(''status'', JStr ''String - current health status''),
                  (''timestamp'', JStr ''ISO 8601 timestamp'')])]),
          (''/log'', JObj
             [(''methods'', JArr [JStr ''GET'', JStr ''POST'']),
              (''description'', JStr ''Request logging endpoint''),
              (''response'', JObj
                 [(''message'', JStr ''String - confirmation message''),
                  (''request_details'', JObj
                     [(''method'', JStr ''HTTP method used''),
                      (''url'', JStr ''Request URL''),
                      (''headers'', JStr ''Request headers''),
                      (''timestamp'', JStr ''ISO 8601 timestamp''),
                      (''remote_addr'', JStr ''Client IP address''),
                      (''body'', JStr ''Request body (POST requests only)'')])])]),
          (''/fraud'', JObj
             [(''methods'', JArr [JStr ''POST'']),
              (''description'', JStr ''Analyze a transaction for fraud detection''),
              (''request'', JObj
                 [(''transaction'', JObj
                     [(''value'', JStr ''Transaction value''),
                      (''timestamp'', JStr ''Transaction timestamp''),
                      (''from'', JStr ''Sender address''),
                      (''to'', JStr ''Receiver address'')])]),
              (''response'', JObj
                 [(''analysis'', JStr ''Object containing fraud analysis results'')])]),
          (''/recommendations'', JObj
             [(''methods'', JArr [JStr ''GET'']),
              (''description'', JStr ''Get personalized event recommendations for a user''),
              (''request'', JObj
                 [(''userId'', JStr ''User identifier''),
                  (''limit'', JStr ''Optional limit for number of recommendations'')]),
              (''response'', JObj
                 [(''recommendations'', JStr ''Array of recommended events'')])])])]"

definition index :: "env \<Rightarrow> request \<Rightarrow> log_call list \<times> (exn + response)" where
  "index e r = ([(INFO, ''API documentation accessed'')], Inr (jsonify api_docs))"

definition not_found_error :: "env \<Rightarrow> request \<Rightarrow> exn \<Rightarrow> log_call list \<times> response" where
  "not_found_error e r error =
     (let error_message =
            JObj [(''error'', JStr ''Resource not found''), (''status_code'', JInt 404)]
      in ([(WARNING, ''404 Error: '' @ req_url r)], with_status (jsonify error_message) 404))"

definition internal_error :: "env \<Rightarrow> request \<Rightarrow> exn \<Rightarrow> log_call list \<times> response" where
  "internal_error e r error =
     (let error_message =
            JObj [(''error'', JStr ''Internal server error''), (''status_code'', JInt 500)]
      in ([(ERROR, ''500 Error: '' @ py_str e error)], with_status (jsonify error_message) 500))"

definition health_check :: "env \<Rightarrow> request \<Rightarrow> log_call list \<times> (exn + response)" where
  "health_check e r =
     ([(INFO, ''Health check endpoint accessed'')],
      Inr (jsonify (JObj [(''status'', JStr ''healthy''),
                          (''timestamp'', JStr (isoformat (now e)))])))"

text \<open>
  \<^verbatim>\<open>log_request\<close>. \<open>request_details\<close> is the dict before the body is added;
  \<^verbatim>\<open>except Exception\<close> takes every exception \<^verbatim>\<open>get_json\<close> raises.
\<close>

definition request_details :: "env \<Rightarrow> request \<Rightarrow> (string \<times> json) list" where
  "request_details e r =
     [(''method'', JStr (req_method r)),
      (''url'', JStr (req_url r)),
      (''headers'', JObj (py_dict (map (\<lambda>(k, v). (k, JStr v)) (req_headers r)))),
      (''timestamp'', JStr (isoformat (now e))),
      (''remote_addr'', (case req_remote_addr r of None \<Rightarrow> JNull | Some a \<Rightarrow> JStr a))]"

definition log_request :: "env \<Rightarrow> request \<Rightarrow> log_call list \<times> (exn + response)" where
  "log_request e r =
     (let details =
            (if req_method r = ''POST''
             then AList.update ''body''
                    (case get_json r of
                       Inr v \<Rightarrow> v
                     | Inl ex \<Rightarrow> JStr ''Could not parse JSON body'')
                    (request_details e r)
             else request_details e r)
      in ([(INFO, ''Request logged: '' @ py_repr e (JObj details))],
          Inr (jsonify (JObj [(''message'', JStr ''Request logged successfully''),
                              (''request_details'', JObj details)]))))"

text \<open>\<^verbatim>\<open>analyze_fraud\<close>. The float \<^verbatim>\<open>0.85\<close> is written as the decimal it prints as.\<close>

definition analyze_fraud :: "env \<Rightarrow> request \<Rightarrow> log_call list \<times> (exn + response)" where
  "analyze_fraud e r =
     (case get_json r of
        Inl ex \<Rightarrow> ([], Inl ex)
      | Inr data \<Rightarrow>
          (case py_get data ''transaction'' of
             Inl ex \<Rightarrow> ([], Inl ex)
           | Inr transaction \<Rightarrow>
               if \<not> truthy transaction
               then ([], Inr (with_status
                        (jsonify (JObj [(''error'', JStr ''Transaction data is required'')])) 400))
               else
                 (let analysis = JObj [(''riskScore'', JFloat (85 / 100)),
                                       (''isFraudulent'', JBool True)]
                  in ([(INFO, ''Fraud analysis completed'')],
                      Inr (jsonify (JObj [(''analysis'', analysis)]))))))"

text \<open>
  \<^verbatim>\<open>get_recommendations\<close>. The lookup of \<^verbatim>\<open>limit\<close> with \<^verbatim>\<open>type=int\<close> falls back to the
  default when the conversion fails, so it does not raise, and its value is not used.
  \<^verbatim>\<open>not user_id\<close> holds of \<^verbatim>\<open>None\<close> and of the empty string.
\<close>

definition get_recommendations :: "env \<Rightarrow> request \<Rightarrow> log_call list \<times> (exn + response)" where
  "get_recommendations e r =
     (let user_id = args_get r ''userId''
      in if user_id = None \<or> user_id = Some []
         then ([], Inr (with_status
                  (jsonify (JObj [(''error'', JStr ''User ID is required'')])) 400))
         else
           (let recommendations =
                  JArr [JObj [(''eventId'', JInt 1), (''eventName'', JStr ''Concert A'')],
                        JObj [(''eventId'', JInt 2), (''eventName'', JStr ''Festival B'')]]
            in ([(INFO, ''Recommendations retrieved'')],
                Inr (jsonify (JObj [(''recommendations'', recommendations)])))))"

section \<open>Dispatch\<close>

text \<open>
  The URL map: one rule for each \<^verbatim>\<open>@app.route\<close> of \<^verbatim>\<open>app.py\<close>, with the methods it
  declares, and the rule \<^verbatim>\<open>/static/<path:filename>\<close> that \<^verbatim>\<open>Flask(__name__)\<close> registers
  for the static folder. \<open>req_path\<close> is compared as it is: Werkzeug's handling of
  doubled slashes is not part of the model.
\<close>

datatype endpoint =
    Index
  | Health_check
  | Log_request
  | Analyze_fraud
  | Get_recommendations
  | Static string

definition url_rules :: "(string \<times> string list \<times> endpoint) list" where
  "url_rules =
     [(''/'', [''GET''], Index),
      (''/health'', [''GET''], Health_check),
      (''/log'', [''GET'', ''POST''], Log_request),
      (''/fraud'', [''POST''], Analyze_fraud),
      (''/recommendations'', [''GET''], Get_recommendations)]"

definition static_filename :: "string \<Rightarrow> string option" where
  "static_filename p =
     (if prefix ''/static/'' p \<and> length ''/static/'' < length p
      then Some (drop (length ''/static/'') p) else None)"

definition match_path :: "string \<Rightarrow> (string list \<times> endpoint) option" where
  "match_path p =
     (case find (\<lambda>(q, ms, ep). q = p) url_rules of
        Some (q, ms, ep) \<Rightarrow> Some (ms, ep)
      | None \<Rightarrow>
          (case static_filename p of
             Some f \<Rightarrow> Some ([''GET''], Static f)
           | None \<Rightarrow> None))"

text \<open>A rule that allows GET also allows HEAD, and Flask adds OPTIONS to every rule.\<close>

definition allowed_methods :: "string list \<Rightarrow> string list" where
  "allowed_methods ms =
     ms @ (if ''GET'' \<in> set ms then [''HEAD''] else []) @ [''OPTIONS'']"

text \<open>
  Matching a request: \<^verbatim>\<open>NotFound\<close> when no rule has the path, \<^verbatim>\<open>MethodNotAllowed\<close>
  when a rule has the path and does not allow the method.
\<close>

definition url_match :: "request \<Rightarrow> exn + endpoint" where
  "url_match r =
     (case match_path (req_path r) of
        None \<Rightarrow> Inl NotFound
      | Some (ms, ep) \<Rightarrow>
          if req_method r \<in> set (allowed_methods ms) then Inr ep else Inl MethodNotAllowed)"

text \<open>The view of the static rule: the file, or \<^verbatim>\<open>NotFound\<close> when there is none.\<close>

definition send_static_file :: "env \<Rightarrow> string \<Rightarrow> log_call list \<times> (exn + response)" where
  "send_static_file e f =
     (if f \<in> set (static_files e)
      then ([], Inr \<lparr>resp_status = 200, resp_body = StaticFile f\<rparr>)
      else ([], Inl NotFound))"

fun view_function :: "endpoint \<Rightarrow> env \<Rightarrow> request \<Rightarrow> log_call list \<times> (exn + response)" where
  "view_function Index e r = index e r"
| "view_function Health_check e r = health_check e r"
| "view_function Log_request e r = log_request e r"
| "view_function Analyze_fraud e r = analyze_fraud e r"
| "view_function Get_recommendations e r = get_recommendations e r"
| "view_function (Static f) e r = send_static_file e f"

text \<open>
  \<^verbatim>\<open>Flask.dispatch_request\<close>: a routing failure is raised here; an OPTIONS request is
  answered by Flask itself; any other goes to the view of the endpoint.
\<close>

definition dispatch_request :: "env \<Rightarrow> request \<Rightarrow> log_call list \<times> (exn + response)" where
  "dispatch_request e r =
     (case url_match r of
        Inl ex \<Rightarrow> ([], Inl ex)
      | Inr ep \<Rightarrow>
          if req_method r = ''OPTIONS''
          then ([], Inr \<lparr>resp_status = 200, resp_body = NoBody\<rparr>)
          else view_function ep e r)"

text \<open>The handlers registered with \<^verbatim>\<open>@app.errorhandler\<close>, by status code.\<close>

definition error_handler ::
  "nat \<Rightarrow> (env \<Rightarrow> request \<Rightarrow> exn \<Rightarrow> log_call list \<times> response) option" where
  "error_handler c =
     (if c = 404 then Some not_found_error
      else if c = 500 then Some internal_error
      else None)"

text \<open>
  \<^verbatim>\<open>Flask.handle_http_exception\<close>: the handler registered for the status code answers;
  without one the exception is its own response, an HTML page.
\<close>

definition handle_http_exception ::
  "env \<Rightarrow> request \<Rightarrow> exn \<Rightarrow> nat \<Rightarrow> log_call list \<times> response" where
  "handle_http_exception e r ex c =
     (case error_handler c of
        Some h \<Rightarrow> h e r ex
      | None \<Rightarrow> ([], \<lparr>resp_status = c, resp_body = HtmlErrorPage ex\<rparr>))"

text \<open>
  \<^verbatim>\<open>Flask.handle_user_exception\<close>: an HTTP exception is handled as above; for any other
  exception no handler is registered, and it is raised again.
\<close>

definition handle_user_exception ::
  "env \<Rightarrow> request \<Rightarrow> exn \<Rightarrow> log_call list \<times> (exn + response)" where
  "handle_user_exception e r ex =
     (case http_code ex of
        Some c \<Rightarrow> (let (l, resp) = handle_http_exception e r ex c in (l, Inr resp))
      | None \<Rightarrow> ([], Inl ex))"

definition full_dispatch_request :: "env \<Rightarrow> request \<Rightarrow> log_call list \<times> (exn + response)" where
  "full_dispatch_request e r =
     (case dispatch_request e r of
        (l, Inr resp) \<Rightarrow> (l, Inr resp)
      | (l, Inl ex) \<Rightarrow> (let (l', x) = handle_user_exception e r ex in (l @ l', x)))"

text \<open>
  \<^verbatim>\<open>Flask.handle_exception\<close>: in debug mode the exception is raised again, out of the
  application; otherwise it is wrapped in \<^verbatim>\<open>InternalServerError\<close> and given to the
  handler of status 500.
\<close>

definition handle_exception ::
  "bool \<Rightarrow> env \<Rightarrow> request \<Rightarrow> exn \<Rightarrow> log_call list \<times> (exn + response)" where
  "handle_exception debug e r ex =
     (if debug then ([], Inl ex)
      else (let (l, resp) = handle_http_exception e r (InternalServerError ex) 500
            in (l, Inr resp)))"

definition wsgi_app :: "bool \<Rightarrow> env \<Rightarrow> request \<Rightarrow> log_call list \<times> (exn + response)" where
  "wsgi_app debug e r =
     (case full_dispatch_request e r of
        (l, Inr resp) \<Rightarrow> (l, Inr resp)
      | (l, Inl ex) \<Rightarrow> (let (l', x) = handle_exception debug e r ex in (l @ l', x)))"

text \<open>
  \<^verbatim>\<open>app.run(host='0.0.0.0', port=5000, debug=True)\<close>, the entry point of \<^verbatim>\<open>app.py\<close>:
  the application runs in debug mode under Werkzeug's debugger, which answers an
  exception that leaves the application with its traceback page.
\<close>

definition run_debug :: bool where
  "run_debug = True"

definition app_run :: "env \<Rightarrow> request \<Rightarrow> log_call list \<times> response" where
  "app_run e r =
     (case wsgi_app run_debug e r of
        (l, Inr resp) \<Rightarrow> (l, resp)
      | (l, Inl ex) \<Rightarrow> (l, \<lparr>resp_status = 500, resp_body = DebuggerPage ex\<rparr>))"

text \<open>
  Requests served one after the other, each at its own reading of the clock; no handler
  keeps state, so only the clock changes between them.
\<close>

definition serve_all :: "env \<Rightarrow> (datetime \<times> request) list \<Rightarrow> (log_call list \<times> response) list" where
  "serve_all e trs = map (\<lambda>(t, r). app_run (e\<lparr>now := t\<rparr>) r) trs"

section \<open>Reading responses\<close>

text \<open>The member of a response's JSON body at a path of keys, when there is one.\<close>

fun json_path :: "string list \<Rightarrow> json \<Rightarrow> json option" where
  "json_path [] j = Some j"
| "json_path (k # ks) j = (case field k j of None \<Rightarrow> None | Some v \<Rightarrow> json_path ks v)"

definition resp_field :: "string list \<Rightarrow> response \<Rightarrow> json option" where
  "resp_field ks resp = (case resp_body resp of JsonBody j \<Rightarrow> json_path ks j | _ \<Rightarrow> None)"

text \<open>The time a \<^verbatim>\<open>/health\<close> response reports, read back from its \<^verbatim>\<open>timestamp\<close> field.\<close>

definition health_timestamp :: "response \<Rightarrow> datetime option" where
  "health_timestamp resp =
     (case resp_field [''timestamp''] resp of Some (JStr s) \<Rightarrow> parse_iso8601 s | _ \<Rightarrow> None)"

text \<open>The times a sequence of responses reports, in order.\<close>

definition timestamps_of :: "(log_call list \<times> response) list \<Rightarrow> datetime list" where
  "timestamps_of xs = List.map_filter (\<lambda>(l, resp). health_timestamp resp) xs"

section \<open>Concrete requests\<close>

definition example_time :: "nat \<Rightarrow> datetime" where
  "example_time s =
     \<lparr>dt_year = 2024, dt_month = 1, dt_day = 1, dt_hour = 0, dt_minute = 0, dt_second = s,
      dt_microsecond = 0\<rparr>"

definition example_env :: env where
  "example_env =
     \<lparr>now = example_time 0, py_repr = (\<lambda>j. ''{}''), py_str = (\<lambda>ex. ''error''),
      static_files = []\<rparr>"

definition example_request :: "string \<Rightarrow> string \<Rightarrow> string \<Rightarrow> json option \<Rightarrow> request" where
  "example_request m p mt b =
     \<lparr>req_method = m, req_path = p, req_url = ''http://localhost:5000'' @ p,
      req_headers = [(''Host'', ''localhost:5000'')], req_remote_addr = Some ''127.0.0.1'',
      req_args = [], req_mimetype = mt, req_json = b\<rparr>"



section \<open>Routing lemmas\<close>

lemma match_path_simps:
  "match_path ''/'' = Some ([''GET''], Index)"
  "match_path ''/health'' = Some ([''GET''], Health_check)"
  "match_path ''/log'' = Some ([''GET'', ''POST''], Log_request)"
  "match_path ''/fraud'' = Some ([''POST''], Analyze_fraud)"
  "match_path ''/recommendations'' = Some ([''GET''], Get_recommendations)"
  by (simp_all add: match_path_def url_rules_def)

lemma wsgi_app_response:
  assumes "dispatch_request e r = (l, Inr resp)"
  shows "wsgi_app debug e r = (l, Inr resp)"
  using assms by (simp add: wsgi_app_def full_dispatch_request_def)

lemma dispatch_view:
  assumes "match_path (req_path r) = Some (ms, ep)" "req_method r \<in> set ms"
    "req_method r \<noteq> ''OPTIONS''"
  shows "dispatch_request e r = view_function ep e r"
  using assms by (simp add: dispatch_request_def url_match_def allowed_methods_def)

lemma app_run_response:
  assumes "wsgi_app run_debug e r = (l, Inr resp)"
  shows "app_run e r = (l, resp)"
  using assms by (simp add: app_run_def)

lemma served_response:
  assumes "match_path (req_path r) = Some (ms, ep)" "req_method r \<in> set ms"
    "req_method r \<noteq> ''OPTIONS''" "view_function ep e r = (l, Inr resp)"
  shows "wsgi_app debug e r = (l, Inr resp) \<and> app_run e r = (l, resp)"
  using assms dispatch_view [of r ms ep e] wsgi_app_response [of e r l resp]
  by (simp add: app_run_response)

section \<open>The recommendations endpoint\<close>

text \<open>
  Claim C3. A GET request to \<^verbatim>\<open>/recommendations\<close> that has no \<^verbatim>\<open>userId\<close> query parameter
  is answered with status 400 and the body \<^verbatim>\<open>{"error": "User ID is required"}\<close>, and
  nothing is logged; so it is in debug mode and outside it, and as the entry point
  serves the application.
\<close>

theorem recommendations_user_id_missing:
  assumes "req_path r = ''/recommendations''" and "req_method r = ''GET''"
    and "args_get r ''userId'' = None"
  shows "wsgi_app debug e r =
           ([], Inr \<lparr>resp_status = 400,
                     resp_body = JsonBody (JObj [(''error'', JStr ''User ID is required'')])\<rparr>) \<and>
         app_run e r =
           ([], \<lparr>resp_status = 400,
                 resp_body = JsonBody (JObj [(''error'', JStr ''User ID is required'')])\<rparr>)"
proof (rule served_response)
  show "match_path (req_path r) = Some ([''GET''], Get_recommendations)"
    using assms(1) by (simp add: match_path_simps)
  show "req_method r \<in> set [''GET'']" "req_method r \<noteq> ''OPTIONS''"
    using assms(2) by simp_all
  show "view_function Get_recommendations e r =
          ([], Inr \<lparr>resp_status = 400,
                    resp_body = JsonBody (JObj [(''error'', JStr ''User ID is required'')])\<rparr>)"
    using assms(3) by (simp add: get_recommendations_def jsonify_def with_status_def)
qed

theorem recommendations_user_id_missing_witness:
  "req_path (example_request ''GET'' ''/recommendations'' [] None) = ''/recommendations'' \<and>
   req_method (example_request ''GET'' ''/recommendations'' [] None) = ''GET'' \<and>
   args_get (example_request ''GET'' ''/recommendations'' [] None) ''userId'' = None \<and>
   app_run example_env (example_request ''GET'' ''/recommendations'' [] None) =
     ([], \<lparr>resp_status = 400,
           resp_body = JsonBody (JObj [(''error'', JStr ''User ID is required'')])\<rparr>)"
  using recommendations_user_id_missing
          [of "example_request ''GET'' ''/recommendations'' [] None" True example_env]
  by (simp add: example_request_def args_get_def)

text \<open>
  Claim C10. A GET request to \<^verbatim>\<open>/recommendations\<close> whose \<^verbatim>\<open>userId\<close> parameter is present
  and empty is rejected like one without the parameter: status 400 and the body
  \<^verbatim>\<open>{"error": "User ID is required"}\<close>.
\<close>

theorem recommendations_user_id_empty:
  assumes "req_path r = ''/recommendations''" and "req_method r = ''GET''"
    and "args_get r ''userId'' = Some []"
  shows "wsgi_app debug e r =
           ([], Inr \<lparr>resp_status = 400,
                     resp_body = JsonBody (JObj [(''error'', JStr ''User ID is required'')])\<rparr>) \<and>
         app_run e r =
           ([], \<lparr>resp_status = 400,
                 resp_body = JsonBody (JObj [(''error'', JStr ''User ID is required'')])\<rparr>)"
proof (rule served_response)
  show "match_path (req_path r) = Some ([''GET''], Get_recommendations)"
    using assms(1) by (simp add: match_path_simps)
  show "req_method r \<in> set [''GET'']" "req_method r \<noteq> ''OPTIONS''"
    using assms(2) by simp_all
  show "view_function Get_recommendations e r =
          ([], Inr \<lparr>resp_status = 400,
                    resp_body = JsonBody (JObj [(''error'', JStr ''User ID is required'')])\<rparr>)"
    using assms(3) by (simp add: get_recommendations_def jsonify_def with_status_def)
qed

theorem recommendations_user_id_empty_witness:
  "args_get ((example_request ''GET'' ''/recommendations'' [] None)
               \<lparr>req_args := [(''userId'', [])]\<rparr>) ''userId'' = Some [] \<and>
   app_run example_env
     ((example_request ''GET'' ''/recommendations'' [] None)\<lparr>req_args := [(''userId'', [])]\<rparr>) =
     ([], \<lparr>resp_status = 400,
           resp_body = JsonBody (JObj [(''error'', JStr ''User ID is required'')])\<rparr>)"
  using recommendations_user_id_empty
          [of "(example_request ''GET'' ''/recommendations'' [] None)
                 \<lparr>req_args := [(''userId'', [])]\<rparr>" True example_env]
  by (simp add: example_request_def args_get_def)

section \<open>The fraud endpoint\<close>

text \<open>
  A POST request to \<^verbatim>\<open>/fraud\<close> whose JSON body is an object without the key
  \<^verbatim>\<open>transaction\<close>, or with a falsy value under it, is answered with status 400 and the
  body \<^verbatim>\<open>{"error": "Transaction data is required"}\<close>. A request has a JSON body when its
  media type is JSON and its body parses; the keys are those of the parsed object.
\<close>

lemma fraud_object_transaction_required:
  assumes "req_path r = ''/fraud''" and "req_method r = ''POST''"
    and "is_json r" and "req_json r = Some (JObj kvs)"
    and "map_of kvs ''transaction'' = None \<or>
         (\<exists>v. map_of kvs ''transaction'' = Some v \<and> \<not> truthy v)"
  shows "wsgi_app debug e r =
           ([], Inr \<lparr>resp_status = 400,
                     resp_body =
                       JsonBody (JObj [(''error'', JStr ''Transaction data is required'')])\<rparr>) \<and>
         app_run e r =
           ([], \<lparr>resp_status = 400,
                 resp_body =
                   JsonBody (JObj [(''error'', JStr ''Transaction data is required'')])\<rparr>)"
proof (rule served_response)
  show "match_path (req_path r) = Some ([''POST''], Analyze_fraud)"
    using assms(1) by (simp add: match_path_simps)
  show "req_method r \<in> set [''POST'']" "req_method r \<noteq> ''OPTIONS''"
    using assms(2) by simp_all
  have "get_json r = Inr (JObj kvs)"
    using assms(3,4) by (simp add: get_json_def)
  then show "view_function Analyze_fraud e r =
          ([], Inr \<lparr>resp_status = 400,
                    resp_body =
                      JsonBody (JObj [(''error'', JStr ''Transaction data is required'')])\<rparr>)"
    using assms(5) by (auto simp add: analyze_fraud_def jsonify_def with_status_def)
qed

lemma fraud_object_transaction_required_example:
  "is_json (example_request ''POST'' ''/fraud'' ''application/json'' (Some (JObj []))) \<and>
   req_json (example_request ''POST'' ''/fraud'' ''application/json'' (Some (JObj []))) =
     Some (JObj []) \<and>
   map_of ([] :: (string \<times> json) list) ''transaction'' = None \<and>
   app_run example_env (example_request ''POST'' ''/fraud'' ''application/json'' (Some (JObj []))) =
     ([], \<lparr>resp_status = 400,
           resp_body = JsonBody (JObj [(''error'', JStr ''Transaction data is required'')])\<rparr>)"
  using fraud_object_transaction_required
          [of "example_request ''POST'' ''/fraud'' ''application/json'' (Some (JObj []))" "[]"
              True example_env]
  by (simp add: example_request_def is_json_def)

lemma analyze_fraud_success:
  assumes "is_json r" and "req_json r = Some (JObj kvs)"
    and "map_of kvs ''transaction'' = Some v" and "truthy v"
  shows "analyze_fraud e r =
           ([(INFO, ''Fraud analysis completed'')],
            Inr \<lparr>resp_status = 200,
                 resp_body =
                   JsonBody (JObj [(''analysis'',
                     JObj [(''riskScore'', JFloat (85 / 100)),
                           (''isFraudulent'', JBool True)])])\<rparr>)"
  using assms by (simp add: analyze_fraud_def get_json_def jsonify_def)

text \<open>
  Claim C9. The answer of \<^verbatim>\<open>/fraud\<close> does not depend on the transaction: two POST
  requests whose JSON bodies are objects with a truthy value under \<^verbatim>\<open>transaction\<close> get
  the same response, status 200 with the body
  \<^verbatim>\<open>{"analysis": {"riskScore": 0.85, "isFraudulent": true}}\<close>, whatever else differs.
\<close>

theorem fraud_response_independent:
  assumes "req_path r1 = ''/fraud''" and "req_method r1 = ''POST''"
    and "is_json r1" and "req_json r1 = Some (JObj kvs1)"
    and "map_of kvs1 ''transaction'' = Some v1" and "truthy v1"
    and "req_path r2 = ''/fraud''" and "req_method r2 = ''POST''"
    and "is_json r2" and "req_json r2 = Some (JObj kvs2)"
    and "map_of kvs2 ''transaction'' = Some v2" and "truthy v2"
  shows "app_run e1 r1 = app_run e2 r2 \<and>
         wsgi_app debug e1 r1 = wsgi_app debug e2 r2 \<and>
         app_run e1 r1 =
           ([(INFO, ''Fraud analysis completed'')],
            \<lparr>resp_status = 200,
             resp_body =
               JsonBody (JObj [(''analysis'',
                 JObj [(''riskScore'', JFloat (85 / 100)),
                       (''isFraudulent'', JBool True)])])\<rparr>)"
proof -
  have m: "match_path ''/fraud'' = Some ([''POST''], Analyze_fraud)"
    by (simp add: match_path_simps)
  have 1: "wsgi_app debug e1 r1 =
             ([(INFO, ''Fraud analysis completed'')],
              Inr \<lparr>resp_status = 200,
                   resp_body =
                     JsonBody (JObj [(''analysis'',
                       JObj [(''riskScore'', JFloat (85 / 100)),
                             (''isFraudulent'', JBool True)])])\<rparr>) \<and>
           app_run e1 r1 =
             ([(INFO, ''Fraud analysis completed'')],
              \<lparr>resp_status = 200,
               resp_body =
                 JsonBody (JObj [(''analysis'',
                   JObj [(''riskScore'', JFloat (85 / 100)),
                         (''isFraudulent'', JBool True)])])\<rparr>)"
    by (rule served_response [where ms = "[''POST'']" and ep = Analyze_fraud])
       (use assms m in \<open>simp_all add: analyze_fraud_success [of r1 kvs1 v1]\<close>)
  have 2: "wsgi_app debug e2 r2 =
             ([(INFO, ''Fraud analysis completed'')],
              Inr \<lparr>resp_status = 200,
                   resp_body =
                     JsonBody (JObj [(''analysis'',
                       JObj [(''riskScore'', JFloat (85 / 100)),
                             (''isFraudulent'', JBool True)])])\<rparr>) \<and>
           app_run e2 r2 =
             ([(INFO, ''Fraud analysis completed'')],
              \<lparr>resp_status = 200,
               resp_body =
                 JsonBody (JObj [(''analysis'',
                   JObj [(''riskScore'', JFloat (85 / 100)),
                         (''isFraudulent'', JBool True)])])\<rparr>)"
    by (rule served_response [where ms = "[''POST'']" and ep = Analyze_fraud])
       (use assms m in \<open>simp_all add: analyze_fraud_success [of r2 kvs2 v2]\<close>)
  from 1 2 show ?thesis by simp
qed

theorem fraud_response_independent_witness:
  "is_json (example_request ''POST'' ''/fraud'' ''application/json''
              (Some (JObj [(''transaction'', JInt 1)]))) \<and>
   truthy (JInt 1) \<and>
   is_json (example_request ''POST'' ''/fraud'' ''application/json''
              (Some (JObj [(''transaction'', JStr ''x'')]))) \<and>
   truthy (JStr ''x'') \<and>
   app_run example_env
     (example_request ''POST'' ''/fraud'' ''application/json''
        (Some (JObj [(''transaction'', JInt 1)]))) =
   app_run (example_env\<lparr>now := example_time 1\<rparr>)
     (example_request ''POST'' ''/fraud'' ''application/json''
        (Some (JObj [(''transaction'', JStr ''x'')])))"
  using fraud_response_independent
          [of "example_request ''POST'' ''/fraud'' ''application/json''
                 (Some (JObj [(''transaction'', JInt 1)]))"
              "[(''transaction'', JInt 1)]" "JInt 1"
              "example_request ''POST'' ''/fraud'' ''application/json''
                 (Some (JObj [(''transaction'', JStr ''x'')]))"
              "[(''transaction'', JStr ''x'')]" "JStr ''x''"
              example_env "example_env\<lparr>now := example_time 1\<rparr>" True]
  by (simp add: example_request_def is_json_def)

section \<open>The log endpoint\<close>

lemma request_details_no_body: "map_of (request_details e r) ''body'' = None"
  by (simp add: request_details_def)

lemma log_request_POST:
  assumes "req_method r = ''POST''"
  shows "\<exists>l resp. log_request e r = (l, Inr resp) \<and> resp_status resp = 200 \<and>
           resp_field [''request_details'', ''body''] resp =
             Some (case get_json r of Inr v \<Rightarrow> v | Inl ex \<Rightarrow> JStr ''Could not parse JSON body'')"
  using assms
  by (simp add: log_request_def Let_def jsonify_def resp_field_def update_conv')

lemma log_request_not_POST:
  assumes "req_method r \<noteq> ''POST''"
  shows "\<exists>l resp. log_request e r = (l, Inr resp) \<and> resp_status resp = 200 \<and>
           resp_field [''request_details'', ''body''] resp = None"
  using assms
  by (simp add: log_request_def Let_def jsonify_def resp_field_def request_details_no_body)

lemma get_json_unparsable:
  assumes "req_json r = None"
  shows "\<exists>ex. get_json r = Inl ex"
  using assms by (simp add: get_json_def)

text \<open>
  Claim C1, amended. A POST request to \<^verbatim>\<open>/log\<close> whose body the JSON parser rejects
  does not make the handler raise: \<^verbatim>\<open>log_request\<close> returns a response, the application
  serves it with status 200, and its \<^verbatim>\<open>request_details.body\<close> is the string
  \<^verbatim>\<open>"Could not parse JSON body"\<close>. The media type of the request does not matter.
\<close>

theorem log_request_unparsable_body:
  assumes "req_path r = ''/log''" and "req_method r = ''POST''" and "req_json r = None"
  shows "\<exists>l resp. log_request e r = (l, Inr resp) \<and>
           wsgi_app debug e r = (l, Inr resp) \<and> app_run e r = (l, resp) \<and>
           resp_status resp = 200 \<and>
           resp_field [''request_details'', ''body''] resp =
             Some (JStr ''Could not parse JSON body'')"
proof -
  obtain ex where ex: "get_json r = Inl ex"
    using get_json_unparsable [OF assms(3)] by blast
  obtain l resp where lr: "log_request e r = (l, Inr resp)" "resp_status resp = 200"
    "resp_field [''request_details'', ''body''] resp = Some (JStr ''Could not parse JSON body'')"
    using log_request_POST [OF assms(2), of e] ex by auto
  have "wsgi_app debug e r = (l, Inr resp) \<and> app_run e r = (l, resp)"
    by (rule served_response [where ms = "[''GET'', ''POST'']" and ep = Log_request])
       (use assms lr in \<open>simp_all add: match_path_simps\<close>)
  with lr show ?thesis by blast
qed

theorem log_request_unparsable_body_witness:
  "req_json (example_request ''POST'' ''/log'' ''application/json'' None) = None \<and>
   (\<exists>l resp. app_run example_env (example_request ''POST'' ''/log'' ''application/json'' None) =
                (l, resp) \<and>
              resp_status resp = 200 \<and>
              resp_field [''request_details'', ''body''] resp =
                Some (JStr ''Could not parse JSON body''))"
  using log_request_unparsable_body
          [of "example_request ''POST'' ''/log'' ''application/json'' None" example_env True]
  by (auto simp add: example_request_def)

text \<open>
  Claim C1 as stated fails: \<^verbatim>\<open>json.loads\<close> accepts bodies that are not valid JSON. The
  body \<^verbatim>\<open>NaN\<close> is none, since JSON has no such literal; the parser returns the float
  \<^verbatim>\<open>nan\<close> for it, and the handler echoes that value instead of the placeholder.
\<close>

theorem log_request_unparsable_body_counterexample:
  "req_method (example_request ''POST'' ''/log'' ''application/json'' (Some (JNonFinite NaN))) =
     ''POST'' \<and>
   is_json (example_request ''POST'' ''/log'' ''application/json'' (Some (JNonFinite NaN))) \<and>
   req_json (example_request ''POST'' ''/log'' ''application/json'' (Some (JNonFinite NaN))) =
     Some (JNonFinite NaN) \<and>
   resp_status (snd (app_run example_env
     (example_request ''POST'' ''/log'' ''application/json'' (Some (JNonFinite NaN))))) = 200 \<and>
   resp_field [''request_details'', ''body'']
     (snd (app_run example_env
        (example_request ''POST'' ''/log'' ''application/json'' (Some (JNonFinite NaN))))) =
     Some (JNonFinite NaN)"
  by (simp add: example_request_def example_env_def app_run_def wsgi_app_def
      full_dispatch_request_def dispatch_request_def url_match_def match_path_simps
      allowed_methods_def log_request_def get_json_def is_json_def jsonify_def resp_field_def
      request_details_def run_debug_def)

text \<open>
  Claim C5, amended. A POST request to \<^verbatim>\<open>/log\<close> whose media type is JSON and whose body
  the JSON parser accepts gets the value the parser returns for it back under
  \<^verbatim>\<open>request_details.body\<close>; every POST response has the key \<^verbatim>\<open>body\<close> there and no
  GET response has it. Both are answered with status 200.
\<close>

theorem log_request_echo:
  assumes "req_path r = ''/log''" and "req_method r = ''POST'' \<or> req_method r = ''GET''"
  shows "\<exists>l resp. wsgi_app debug e r = (l, Inr resp) \<and> app_run e r = (l, resp) \<and>
           resp_status resp = 200 \<and>
           (req_method r = ''GET'' \<longrightarrow> resp_field [''request_details'', ''body''] resp = None) \<and>
           (req_method r = ''POST'' \<longrightarrow>
              resp_field [''request_details'', ''body''] resp \<noteq> None \<and>
              (\<forall>v. is_json r \<and> req_json r = Some v \<longrightarrow>
                 resp_field [''request_details'', ''body''] resp = Some v))"
proof (cases "req_method r = ''POST''")
  case True
  obtain l resp where lr: "log_request e r = (l, Inr resp)" "resp_status resp = 200"
    "resp_field [''request_details'', ''body''] resp =
       Some (case get_json r of Inr v \<Rightarrow> v | Inl ex \<Rightarrow> JStr ''Could not parse JSON body'')"
    using log_request_POST [OF True, of e] by blast
  have "wsgi_app debug e r = (l, Inr resp) \<and> app_run e r = (l, resp)"
    by (rule served_response [where ms = "[''GET'', ''POST'']" and ep = Log_request])
       (use assms True lr in \<open>simp_all add: match_path_simps\<close>)
  moreover have "\<forall>v. is_json r \<and> req_json r = Some v \<longrightarrow>
                   resp_field [''request_details'', ''body''] resp = Some v"
    using lr(3) by (simp add: get_json_def)
  ultimately show ?thesis
    using True lr by auto
next
  case False
  then have g: "req_method r = ''GET''"
    using assms(2) by simp
  obtain l resp where lr: "log_request e r = (l, Inr resp)" "resp_status resp = 200"
    "resp_field [''request_details'', ''body''] resp = None"
    using log_request_not_POST [OF False, of e] by blast
  have "wsgi_app debug e r = (l, Inr resp) \<and> app_run e r = (l, resp)"
    by (rule served_response [where ms = "[''GET'', ''POST'']" and ep = Log_request])
       (use assms g lr in \<open>simp_all add: match_path_simps\<close>)
  then show ?thesis
    using g lr by auto
qed

theorem log_request_echo_witness:
  "is_json (example_request ''POST'' ''/log'' ''application/json'' (Some (JObj [(''a'', JInt 1)]))) \<and>
   (\<exists>l resp.
      app_run example_env
        (example_request ''POST'' ''/log'' ''application/json'' (Some (JObj [(''a'', JInt 1)]))) =
        (l, resp) \<and>
      resp_field [''request_details'', ''body''] resp = Some (JObj [(''a'', JInt 1)]))"
  using log_request_echo
          [of "example_request ''POST'' ''/log'' ''application/json''
                 (Some (JObj [(''a'', JInt 1)]))" True example_env]
  by (auto simp add: example_request_def is_json_def)

text \<open>
  Claim C5 as stated fails: \<^verbatim>\<open>get_json()\<close> does not parse a body whose media type is
  not JSON. A POST request to \<^verbatim>\<open>/log\<close> with the media type \<^verbatim>\<open>text/plain\<close> and the
  well-formed JSON body \<^verbatim>\<open>{"a": 1}\<close> gets the placeholder string back, not its body.
\<close>

theorem log_request_echo_counterexample:
  "req_method (example_request ''POST'' ''/log'' ''text/plain'' (Some (JObj [(''a'', JInt 1)]))) =
     ''POST'' \<and>
   req_json (example_request ''POST'' ''/log'' ''text/plain'' (Some (JObj [(''a'', JInt 1)]))) =
     Some (JObj [(''a'', JInt 1)]) \<and>
   resp_field [''request_details'', ''body'']
     (snd (app_run example_env
        (example_request ''POST'' ''/log'' ''text/plain'' (Some (JObj [(''a'', JInt 1)]))))) =
     Some (JStr ''Could not parse JSON body'')"
  by (simp add: example_request_def example_env_def app_run_def wsgi_app_def
      full_dispatch_request_def dispatch_request_def url_match_def match_path_simps
      allowed_methods_def log_request_def get_json_def is_json_def jsonify_def resp_field_def
      request_details_def run_debug_def)

section \<open>Unmatched requests and faults\<close>

lemma wsgi_app_not_found:
  assumes "dispatch_request e r = ([], Inl NotFound)"
  shows "wsgi_app debug e r =
           ([(WARNING, ''404 Error: '' @ req_url r)],
            Inr \<lparr>resp_status = 404,
                 resp_body = JsonBody (JObj [(''error'', JStr ''Resource not found''),
                                             (''status_code'', JInt 404)])\<rparr>)"
  using assms
  by (simp add: wsgi_app_def full_dispatch_request_def handle_user_exception_def
      handle_http_exception_def error_handler_def not_found_error_def jsonify_def
      with_status_def)

text \<open>
  Claim C6, amended. A request whose path matches no rule of the URL map, whatever its
  method, makes the service log one warning that ends with the requested URL and answer
  with status 404 and the body \<^verbatim>\<open>{"error": "Resource not found", "status_code": 404}\<close>.
\<close>

theorem unmatched_path_not_found:
  assumes "match_path (req_path r) = None"
  shows "wsgi_app debug e r =
           ([(WARNING, ''404 Error: '' @ req_url r)],
            Inr \<lparr>resp_status = 404,
                 resp_body = JsonBody (JObj [(''error'', JStr ''Resource not found''),
                                             (''status_code'', JInt 404)])\<rparr>) \<and>
         app_run e r =
           ([(WARNING, ''404 Error: '' @ req_url r)],
            \<lparr>resp_status = 404,
             resp_body = JsonBody (JObj [(''error'', JStr ''Resource not found''),
                                         (''status_code'', JInt 404)])\<rparr>)"
proof -
  have "dispatch_request e r = ([], Inl NotFound)"
    using assms by (simp add: dispatch_request_def url_match_def)
  then have "wsgi_app d e r =
           ([(WARNING, ''404 Error: '' @ req_url r)],
            Inr \<lparr>resp_status = 404,
                 resp_body = JsonBody (JObj [(''error'', JStr ''Resource not found''),
                                             (''status_code'', JInt 404)])\<rparr>)" for d
    by (rule wsgi_app_not_found)
  then show ?thesis
    by (simp add: app_run_def)
qed

theorem unmatched_path_not_found_witness:
  "match_path (req_path (example_request ''GET'' ''/nonexistent-route'' [] None)) = None \<and>
   app_run example_env (example_request ''GET'' ''/nonexistent-route'' [] None) =
     ([(WARNING, ''404 Error: http://localhost:5000/nonexistent-route'')],
      \<lparr>resp_status = 404,
       resp_body = JsonBody (JObj [(''error'', JStr ''Resource not found''),
                                   (''status_code'', JInt 404)])\<rparr>)"
  using unmatched_path_not_found
          [of "example_request ''GET'' ''/nonexistent-route'' [] None" True example_env]
  by (simp add: example_request_def match_path_def url_rules_def static_filename_def)

text \<open>
  Claim C6 as stated fails: a path that a rule has, with a method the rule does not
  allow, is a pair that matches no route, and it is not answered by the 404 handler.
  \<^verbatim>\<open>GET /fraud\<close> raises \<^verbatim>\<open>MethodNotAllowed\<close>; no handler is registered for status 405, so
  the answer is Werkzeug's HTML page with status 405, and nothing is logged.
\<close>

theorem unmatched_method_counterexample:
  "url_match (example_request ''GET'' ''/fraud'' [] None) = Inl MethodNotAllowed \<and>
   app_run example_env (example_request ''GET'' ''/fraud'' [] None) =
     ([], \<lparr>resp_status = 405, resp_body = HtmlErrorPage MethodNotAllowed\<rparr>)"
  by (simp add: example_request_def app_run_def wsgi_app_def full_dispatch_request_def
      dispatch_request_def url_match_def match_path_simps allowed_methods_def
      handle_user_exception_def handle_http_exception_def error_handler_def)

text \<open>
  Outside debug mode, an exception without HTTP status that a view raises reaches the
  handler of status 500.
\<close>

lemma wsgi_app_internal_error:
  assumes "dispatch_request e r = (l, Inl ex)" and "http_code ex = None"
  shows "wsgi_app False e r =
           (l @ [(ERROR, ''500 Error: '' @ py_str e (InternalServerError ex))],
            Inr \<lparr>resp_status = 500,
                 resp_body = JsonBody (JObj [(''error'', JStr ''Internal server error''),
                                             (''status_code'', JInt 500)])\<rparr>)"
  using assms
  by (simp add: wsgi_app_def full_dispatch_request_def handle_user_exception_def
      handle_exception_def handle_http_exception_def error_handler_def internal_error_def
      jsonify_def with_status_def)

text \<open>In debug mode it leaves the application instead.\<close>

lemma wsgi_app_debug_propagates:
  assumes "dispatch_request e r = (l, Inl ex)" and "http_code ex = None"
  shows "wsgi_app True e r = (l, Inl ex)"
  using assms
  by (simp add: wsgi_app_def full_dispatch_request_def handle_user_exception_def
      handle_exception_def)

text \<open>So the entry point answers it with the traceback page, whatever the request.\<close>

lemma app_run_fault:
  assumes "dispatch_request e r = (l, Inl ex)" and "http_code ex = None"
  shows "app_run e r = (l, \<lparr>resp_status = 500, resp_body = DebuggerPage ex\<rparr>)"
  using wsgi_app_debug_propagates [OF assms]
  by (simp add: app_run_def run_debug_def)

lemma analyze_fraud_not_object:
  assumes "is_json r" and "req_json r = Some v" and "\<forall>kvs. v \<noteq> JObj kvs"
  shows "analyze_fraud e r = ([], Inl AttributeError)"
  using assms by (cases v) (simp_all add: analyze_fraud_def get_json_def)

text \<open>
  Claim C4 does not hold of the application as \<^verbatim>\<open>app.py\<close> starts it. The handler of
  status 500 returns the JSON error the claim describes, but \<^verbatim>\<open>app.run(debug=True)\<close>
  keeps an unhandled exception from reaching it: \<^verbatim>\<open>POST /fraud\<close> with the JSON body
  \<^verbatim>\<open>[]\<close> raises \<^verbatim>\<open>AttributeError\<close> in \<^verbatim>\<open>analyze_fraud\<close>, and the caller receives
  the debugger's HTML traceback page.
\<close>

theorem fault_in_debug_mode:
  "app_run example_env (example_request ''POST'' ''/fraud'' ''application/json'' (Some (JArr []))) =
     ([], \<lparr>resp_status = 500, resp_body = DebuggerPage AttributeError\<rparr>)"
  by (simp add: example_request_def app_run_def run_debug_def wsgi_app_def
      full_dispatch_request_def dispatch_request_def url_match_def match_path_simps
      allowed_methods_def analyze_fraud_def get_json_def is_json_def
      handle_user_exception_def handle_exception_def)

text \<open>
  An HTTP exception that a view raises is answered with Werkzeug's HTML page as well,
  in debug mode and outside it: \<^verbatim>\<open>POST /fraud\<close> with a body that does not parse.
\<close>

lemma fault_bad_request_page:
  "app_run example_env (example_request ''POST'' ''/fraud'' ''application/json'' None) =
     ([], \<lparr>resp_status = 400, resp_body = HtmlErrorPage BadRequest\<rparr>)"
  by (simp add: example_request_def app_run_def run_debug_def wsgi_app_def
      full_dispatch_request_def dispatch_request_def url_match_def match_path_simps
      allowed_methods_def analyze_fraud_def get_json_def is_json_def
      handle_user_exception_def handle_http_exception_def error_handler_def)

text \<open>
  Claim C2 does not hold of a JSON body that is not an object. Such a body has no
  \<^verbatim>\<open>transaction\<close> key either, but \<^verbatim>\<open>data.get\<close> raises \<^verbatim>\<open>AttributeError\<close> on it
  before the check of the transaction is reached: \<^verbatim>\<open>POST /fraud\<close> with the JSON body
  \<^verbatim>\<open>null\<close> is answered with status 500, by the debugger's page as the entry point runs
  the application and by the handler of status 500 outside debug mode, and in no case
  with status 400.
\<close>

theorem fraud_body_not_object:
  "is_json (example_request ''POST'' ''/fraud'' ''application/json'' (Some JNull)) \<and>
   get_json (example_request ''POST'' ''/fraud'' ''application/json'' (Some JNull)) = Inr JNull \<and>
   py_get JNull ''transaction'' = Inl AttributeError \<and>
   analyze_fraud example_env (example_request ''POST'' ''/fraud'' ''application/json'' (Some JNull)) =
     ([], Inl AttributeError) \<and>
   app_run example_env (example_request ''POST'' ''/fraud'' ''application/json'' (Some JNull)) =
     ([], \<lparr>resp_status = 500, resp_body = DebuggerPage AttributeError\<rparr>) \<and>
   wsgi_app False example_env
     (example_request ''POST'' ''/fraud'' ''application/json'' (Some JNull)) =
     ([(ERROR, ''500 Error: error'')],
      Inr \<lparr>resp_status = 500,
           resp_body = JsonBody (JObj [(''error'', JStr ''Internal server error''),
                                       (''status_code'', JInt 500)])\<rparr>)"
  by (simp add: example_request_def example_env_def app_run_def run_debug_def wsgi_app_def
      full_dispatch_request_def dispatch_request_def url_match_def match_path_simps
      allowed_methods_def analyze_fraud_def get_json_def is_json_def
      handle_user_exception_def handle_exception_def handle_http_exception_def
      error_handler_def internal_error_def jsonify_def with_status_def)

section \<open>The rotating file\<close>





















section \<open>Time stamps read back\<close>

lemma length_zpad [simp]: "length (zpad w n) = w"
  by (induction w n rule: zpad.induct) simp_all

lemma digit_val_digit_char: "k < 10 \<Longrightarrow> digit_val (digit_char k) = Some k"
  by (simp add: digit_val_def digit_char_def Let_def)

lemma parse_nat_acc_append:
  "parse_nat_acc acc (xs @ ys) =
     (case parse_nat_acc acc xs of None \<Rightarrow> None | Some a \<Rightarrow> parse_nat_acc a ys)"
  by (induction xs arbitrary: acc) (simp_all split: option.splits)

lemma parse_nat_acc_zpad:
  "parse_nat_acc acc (zpad w n) = Some (acc * 10 ^ w + n mod 10 ^ w)"
proof (induction w n arbitrary: acc rule: zpad.induct)
  case (1 n)
  then show ?case by simp
next
  case (2 w n)
  have "n mod (10 * 10 ^ w) = 10 * (n div 10 mod 10 ^ w) + n mod 10"
    by (rule mod_mult2_eq)
  then show ?case
    using 2 [of acc]
    by (simp add: parse_nat_acc_append digit_val_digit_char algebra_simps)
qed

lemma parse_nat_zpad:
  assumes "0 < w" and "n < 10 ^ w"
  shows "parse_nat (zpad w n) = Some n"
proof -
  have "zpad w n \<noteq> []"
    using assms(1) length_zpad [of w n] by (metis length_0_conv less_numeral_extra(3))
  then show ?thesis
    using assms(2) by (simp add: parse_nat_def parse_nat_acc_zpad)
qed

lemma parse_isoformat:
  assumes "valid_datetime d"
  shows "parse_iso8601 (isoformat d) = Some d"
proof -
  have y: "parse_nat (zpad 4 (dt_year d)) = Some (dt_year d)"
    and mo: "parse_nat (zpad 2 (dt_month d)) = Some (dt_month d)"
    and dd: "parse_nat (zpad 2 (dt_day d)) = Some (dt_day d)"
    and h: "parse_nat (zpad 2 (dt_hour d)) = Some (dt_hour d)"
    and mi: "parse_nat (zpad 2 (dt_minute d)) = Some (dt_minute d)"
    and s: "parse_nat (zpad 2 (dt_second d)) = Some (dt_second d)"
    and us: "parse_nat (zpad 6 (dt_microsecond d)) = Some (dt_microsecond d)"
    using assms by (simp_all add: parse_nat_zpad valid_datetime_def days_in_month_def split: if_splits)
  have d: "\<lparr>dt_year = dt_year d, dt_month = dt_month d, dt_day = dt_day d,
            dt_hour = dt_hour d, dt_minute = dt_minute d, dt_second = dt_second d,
            dt_microsecond = dt_microsecond d\<rparr> = d"
    by simp
  show ?thesis
  proof (cases "dt_microsecond d = 0")
    case True
    have "parse_iso8601 (isoformat d) =
            (let t = \<lparr>dt_year = dt_year d, dt_month = dt_month d, dt_day = dt_day d,
                      dt_hour = dt_hour d, dt_minute = dt_minute d, dt_second = dt_second d,
                      dt_microsecond = dt_microsecond d\<rparr>
             in if valid_datetime t then Some t else None)"
      using True y mo dd h mi s
      by (simp add: parse_iso8601_def isoformat_def slice_def nth_append)
    then show ?thesis
      using assms by (simp only: d Let_def if_True)
  next
    case False
    have "parse_iso8601 (isoformat d) =
            (let t = \<lparr>dt_year = dt_year d, dt_month = dt_month d, dt_day = dt_day d,
                      dt_hour = dt_hour d, dt_minute = dt_minute d, dt_second = dt_second d,
                      dt_microsecond = dt_microsecond d\<rparr>
             in if valid_datetime t then Some t else None)"
      using False y mo dd h mi s us
      by (simp add: parse_iso8601_def isoformat_def slice_def nth_append)
    then show ?thesis
      using assms by (simp only: d Let_def if_True)
  qed
qed

section \<open>The health endpoint\<close>

lemma health_response:
  assumes "req_path r = ''/health''" and "req_method r = ''GET''"
  shows "app_run e r =
           ([(INFO, ''Health check endpoint accessed'')],
            \<lparr>resp_status = 200,
             resp_body = JsonBody (JObj [(''status'', JStr ''healthy''),
                                         (''timestamp'', JStr (isoformat (now e)))])\<rparr>)"
proof -
  have "wsgi_app run_debug e r =
          ([(INFO, ''Health check endpoint accessed'')],
           Inr \<lparr>resp_status = 200,
                resp_body = JsonBody (JObj [(''status'', JStr ''healthy''),
                                            (''timestamp'', JStr (isoformat (now e)))])\<rparr>) \<and>
        app_run e r =
          ([(INFO, ''Health check endpoint accessed'')],
           \<lparr>resp_status = 200,
            resp_body = JsonBody (JObj [(''status'', JStr ''healthy''),
                                        (''timestamp'', JStr (isoformat (now e)))])\<rparr>)"
    by (rule served_response [where ms = "[''GET'']" and ep = Health_check])
       (use assms in \<open>simp_all add: match_path_simps health_check_def jsonify_def\<close>)
  then show ?thesis by simp
qed

lemma health_fields:
  assumes "req_path r = ''/health''" and "req_method r = ''GET''" and "valid_datetime (now e)"
  shows "resp_status (snd (app_run e r)) = 200 \<and>
         resp_field [''status''] (snd (app_run e r)) = Some (JStr ''healthy'') \<and>
         health_timestamp (snd (app_run e r)) = Some (now e)"
  using assms
  by (simp add: health_response resp_field_def health_timestamp_def parse_isoformat)

lemma serve_all_health:
  assumes "\<forall>(t, r) \<in> set trs.
             valid_datetime t \<and> req_path r = ''/health'' \<and> req_method r = ''GET''"
  shows "map (\<lambda>(l, resp). (resp_status resp, resp_field [''status''] resp,
                            health_timestamp resp)) (serve_all e trs) =
         map (\<lambda>(t, r). (200, Some (JStr ''healthy''), Some t)) trs"
  using assms
proof (induction trs)
  case Nil
  then show ?case by (simp add: serve_all_def)
next
  case (Cons tr trs)
  obtain t r where tr: "tr = (t, r)" by (cases tr)
  have "resp_status (snd (app_run (e\<lparr>now := t\<rparr>) r)) = 200 \<and>
        resp_field [''status''] (snd (app_run (e\<lparr>now := t\<rparr>) r)) = Some (JStr ''healthy'') \<and>
        health_timestamp (snd (app_run (e\<lparr>now := t\<rparr>) r)) = Some t"
    using Cons.prems tr health_fields [of r "e\<lparr>now := t\<rparr>"] by simp
  then show ?case
    using Cons tr by (simp add: serve_all_def case_prod_unfold)
qed

lemma timestamps_of_map:
  assumes "map (\<lambda>(l, resp). health_timestamp resp) xs = map Some ts"
  shows "timestamps_of xs = ts"
  using assms unfolding timestamps_of_def
proof (induction xs arbitrary: ts)
  case Nil
  then show ?case by (simp add: map_filter_simps)
next
  case (Cons x xs)
  then obtain t ts' where "ts = t # ts'" by (cases ts) auto
  then show ?case
    using Cons by (auto simp add: map_filter_simps)
qed

text \<open>
  Claim C7, amended. Every GET request to \<^verbatim>\<open>/health\<close> is answered with status 200, the
  \<^verbatim>\<open>status\<close> field \<^verbatim>\<open>"healthy"\<close> and a \<^verbatim>\<open>timestamp\<close> field that reads as ISO-8601, without
  zone designator, and reads back to the UTC wall-clock time at which the request was
  handled. So the timestamps of successive calls are the successive readings of the
  clock, and they are non-decreasing whenever those readings are.
\<close>

theorem health_check_timestamps:
  assumes "\<forall>(t, r) \<in> set trs.
             valid_datetime t \<and> req_path r = ''/health'' \<and> req_method r = ''GET''"
  shows "map (\<lambda>(l, resp). (resp_status resp, resp_field [''status''] resp,
                            health_timestamp resp)) (serve_all e trs) =
           map (\<lambda>(t, r). (200, Some (JStr ''healthy''), Some t)) trs \<and>
         timestamps_of (serve_all e trs) = map fst trs \<and>
         (sorted_wrt dt_le (map fst trs) \<longrightarrow> sorted_wrt dt_le (timestamps_of (serve_all e trs)))"
proof -
  have 1: "map (\<lambda>(l, resp). (resp_status resp, resp_field [''status''] resp,
                            health_timestamp resp)) (serve_all e trs) =
           map (\<lambda>(t, r). (200, Some (JStr ''healthy''), Some t)) trs"
    using assms by (rule serve_all_health)
  have "map (\<lambda>x. snd (snd x))
          (map (\<lambda>(l, resp). (resp_status resp, resp_field [''status''] resp,
                            health_timestamp resp)) (serve_all e trs)) =
        map (\<lambda>x. snd (snd x)) (map (\<lambda>(t, r). (200::nat, Some (JStr ''healthy''), Some t)) trs)"
    using 1 by simp
  then have "map (\<lambda>(l, resp). health_timestamp resp) (serve_all e trs) = map Some (map fst trs)"
    by (simp add: case_prod_unfold comp_def)
  then have 2: "timestamps_of (serve_all e trs) = map fst trs"
    by (rule timestamps_of_map)
  show ?thesis
    using 1 2 by simp
qed

theorem health_check_timestamps_witness:
  "valid_datetime (example_time 0) \<and> valid_datetime (example_time 1) \<and>
   req_path (example_request ''GET'' ''/health'' [] None) = ''/health'' \<and>
   req_method (example_request ''GET'' ''/health'' [] None) = ''GET'' \<and>
   sorted_wrt dt_le [example_time 0, example_time 1] \<and>
   timestamps_of (serve_all example_env
     [(example_time 0, example_request ''GET'' ''/health'' [] None),
      (example_time 1, example_request ''GET'' ''/health'' [] None)]) =
     [example_time 0, example_time 1] \<and>
   sorted_wrt dt_le (timestamps_of (serve_all example_env
     [(example_time 0, example_request ''GET'' ''/health'' [] None),
      (example_time 1, example_request ''GET'' ''/health'' [] None)]))"
  using health_check_timestamps
          [of "[(example_time 0, example_request ''GET'' ''/health'' [] None),
                (example_time 1, example_request ''GET'' ''/health'' [] None)]" example_env]
  by (simp add: example_request_def example_time_def valid_datetime_def days_in_month_def
      dt_le_def dt_key_def)

lemma example_time_valid: "s < 60 \<Longrightarrow> valid_datetime (example_time s)"
  by (simp add: example_time_def valid_datetime_def days_in_month_def)

text \<open>
  Claim C7 as stated fails: \<^verbatim>\<open>datetime.utcnow()\<close> reads the wall clock, which can be
  set back. Two successive calls, the second handled at a reading one second before that
  of the first, report decreasing timestamps.
\<close>

theorem health_check_timestamps_counterexample:
  "timestamps_of (serve_all example_env
     [(example_time 1, example_request ''GET'' ''/health'' [] None),
      (example_time 0, example_request ''GET'' ''/health'' [] None)]) =
     [example_time 1, example_time 0] \<and>
   \<not> sorted_wrt dt_le (timestamps_of (serve_all example_env
     [(example_time 1, example_request ''GET'' ''/health'' [] None),
      (example_time 0, example_request ''GET'' ''/health'' [] None)]))"
proof -
  have a: "health_timestamp (snd (app_run (example_env\<lparr>now := example_time 1\<rparr>)
              (example_request ''GET'' ''/health'' [] None))) = Some (example_time 1)"
    using health_fields [of "example_request ''GET'' ''/health'' [] None"
                            "example_env\<lparr>now := example_time 1\<rparr>"]
    by (simp add: example_time_valid example_request_def)
  have b: "health_timestamp (snd (app_run (example_env\<lparr>now := example_time 0\<rparr>)
              (example_request ''GET'' ''/health'' [] None))) = Some (example_time 0)"
    using health_fields [of "example_request ''GET'' ''/health'' [] None"
                            "example_env\<lparr>now := example_time 0\<rparr>"]
    by (simp add: example_time_valid example_request_def)
  have "map (\<lambda>(l, resp). health_timestamp resp) (serve_all example_env
     [(example_time 1, example_request ''GET'' ''/health'' [] None),
      (example_time 0, example_request ''GET'' ''/health'' [] None)]) =
     map Some [example_time 1, example_time 0]"
    using a b by (simp add: serve_all_def case_prod_unfold)
  then have "timestamps_of (serve_all example_env
     [(example_time 1, example_request ''GET'' ''/health'' [] None),
      (example_time 0, example_request ''GET'' ''/health'' [] None)]) =
     [example_time 1, example_time 0]"
    by (rule timestamps_of_map)
  moreover have "\<not> dt_le (example_time 1) (example_time 0)"
    by (simp add: dt_le_def dt_key_def example_time_def)
  ultimately show ?thesis by simp
qed

end
